theory Spec2Isabelle
  imports Complex_Main
begin

section \<open>The sliding-window rate limiter of src/lib/server/ratelimiter.ts\<close>

text \<open>
  The limiter keeps, per user and model family, a Redis sorted set of the clock readings
  of the admitted requests. This theory embeds its functions: the environment
  (\<open>process.env\<close>), the clock (\<open>Date.now()\<close>) and the Redis connection are explicit
  arguments, a thrown \<open>Error\<close> is the left summand of the result, and every function
  that talks to Redis returns the connection it leaves behind. A source name with a
  leading underscore is written with the prefix \<open>u_\<close>.
\<close>

subsection \<open>Numbers\<close>

text \<open>
  A JavaScript number is a double: \<open>NaN\<close>, one of the two infinities, or a finite
  value, kept here as the rational it is. The result of an arithmetic operation is the
  exact result rounded to the nearest double, ties to the even mantissa (\<open>fl\<close>).
  The sign of zero is not kept. Every comparison with \<open>NaN\<close> is false.
\<close>

datatype jsnum = NaN | PInf | NInf | Num rat

definition pow2 :: "int \<Rightarrow> rat" where
  "pow2 k = (if 0 \<le> k then 2 ^ nat k else 1 / 2 ^ nat (- k))"

text \<open>
  The binade of a positive value: the exponent \<open>k\<close> with \<open>2 ^ k \<le> a < 2 ^ (k + 1)\<close>,
  held at -1022 for the subnormal values and at 1024 for the values beyond the range.
\<close>

function binade_up :: "rat \<Rightarrow> int \<Rightarrow> int" where
  "binade_up a k = (if a < 2 \<or> 1024 \<le> k then k else binade_up (a / 2) (k + 1))"
  by pat_completeness auto
termination
  by (relation "measure (\<lambda>(a, k). nat (1024 - k))") auto

function binade_down :: "rat \<Rightarrow> int \<Rightarrow> int" where
  "binade_down a k = (if 1 \<le> a \<or> k \<le> - 1022 then k else binade_down (a * 2) (k - 1))"
  by pat_completeness auto
termination
  by (relation "measure (\<lambda>(a, k). nat (k + 1022))") auto

definition binade :: "rat \<Rightarrow> int" where
  "binade a = (if 1 \<le> a then binade_up a 0 else binade_down a 0)"

definition round_half_even :: "rat \<Rightarrow> int" where
  "round_half_even q =
     (let f = \<lfloor>q\<rfloor>; d = q - of_int f
      in if d < 1 / 2 then f else if 1 / 2 < d then f + 1 else if even f then f else f + 1)"

text \<open>The double nearest to a positive value: 53 bits of mantissa.\<close>

definition nearest_double :: "rat \<Rightarrow> jsnum" where
  "nearest_double a =
     (let p = binade a - 52;
          v = of_int (round_half_even (a / pow2 p)) * pow2 p
      in if 2 ^ 1024 \<le> v then PInf else Num v)"

text \<open>The integers up to \<open>2 ^ 53\<close> in magnitude are doubles.\<close>

definition exact_int :: "rat \<Rightarrow> bool" where
  "exact_int x = (x = of_int \<lfloor>x\<rfloor> \<and> \<bar>x\<bar> \<le> 2 ^ 53)"

fun jneg :: "jsnum \<Rightarrow> jsnum" where
  "jneg NaN = NaN"
| "jneg PInf = NInf"
| "jneg NInf = PInf"
| "jneg (Num a) = Num (- a)"

definition fl :: "rat \<Rightarrow> jsnum" where
  "fl x = (if exact_int x then Num x
           else if 0 < x then nearest_double x else jneg (nearest_double (- x)))"

fun jadd :: "jsnum \<Rightarrow> jsnum \<Rightarrow> jsnum" where
  "jadd (Num a) (Num b) = fl (a + b)"
| "jadd NaN y = NaN"
| "jadd x NaN = NaN"
| "jadd PInf NInf = NaN"
| "jadd NInf PInf = NaN"
| "jadd PInf y = PInf"
| "jadd NInf y = NInf"
| "jadd (Num a) y = y"

definition jsub :: "jsnum \<Rightarrow> jsnum \<Rightarrow> jsnum" where
  "jsub x y = jadd x (jneg y)"

text \<open>The sign of a product or quotient with an infinity.\<close>

definition signed_inf :: "bool \<Rightarrow> jsnum" where
  "signed_inf positive = (if positive then PInf else NInf)"

fun jmul :: "jsnum \<Rightarrow> jsnum \<Rightarrow> jsnum" where
  "jmul (Num a) (Num b) = fl (a * b)"
| "jmul NaN y = NaN"
| "jmul x NaN = NaN"
| "jmul PInf PInf = PInf"
| "jmul PInf NInf = NInf"
| "jmul NInf PInf = NInf"
| "jmul NInf NInf = PInf"
| "jmul PInf (Num b) = (if b = 0 then NaN else signed_inf (0 < b))"
| "jmul NInf (Num b) = (if b = 0 then NaN else signed_inf (b < 0))"
| "jmul (Num a) PInf = (if a = 0 then NaN else signed_inf (0 < a))"
| "jmul (Num a) NInf = (if a = 0 then NaN else signed_inf (a < 0))"

fun jdiv :: "jsnum \<Rightarrow> jsnum \<Rightarrow> jsnum" where
  "jdiv (Num a) (Num b) =
     (if b = 0 then (if a = 0 then NaN else signed_inf (0 < a)) else fl (a / b))"
| "jdiv NaN y = NaN"
| "jdiv x NaN = NaN"
| "jdiv (Num a) PInf = Num 0"
| "jdiv (Num a) NInf = Num 0"
| "jdiv PInf (Num b) = signed_inf (0 \<le> b)"
| "jdiv NInf (Num b) = signed_inf (b < 0)"
| "jdiv x y = NaN"

fun jge :: "jsnum \<Rightarrow> jsnum \<Rightarrow> bool" where
  "jge (Num a) (Num b) = (b \<le> a)"
| "jge NaN y = False"
| "jge x NaN = False"
| "jge PInf y = True"
| "jge x NInf = True"
| "jge x y = False"

fun jlt :: "jsnum \<Rightarrow> jsnum \<Rightarrow> bool" where
  "jlt (Num a) (Num b) = (a < b)"
| "jlt NaN y = False"
| "jlt x NaN = False"
| "jlt PInf y = False"
| "jlt x NInf = False"
| "jlt x y = True"

text \<open>Strict equality \<open>===\<close> on numbers: \<open>NaN\<close> equals nothing.\<close>

fun jeq :: "jsnum \<Rightarrow> jsnum \<Rightarrow> bool" where
  "jeq NaN y = False"
| "jeq x NaN = False"
| "jeq x y = (x = y)"

fun isNaN :: "jsnum \<Rightarrow> bool" where
  "isNaN NaN = True"
| "isNaN x = False"

fun Math_max :: "jsnum \<Rightarrow> jsnum \<Rightarrow> jsnum" where
  "Math_max (Num a) (Num b) = Num (max a b)"
| "Math_max NaN y = NaN"
| "Math_max x NaN = NaN"
| "Math_max PInf y = PInf"
| "Math_max x PInf = PInf"
| "Math_max NInf y = y"
| "Math_max x NInf = x"

fun Math_ceil :: "jsnum \<Rightarrow> jsnum" where
  "Math_ceil (Num a) = Num (of_int \<lceil>a\<rceil>)"
| "Math_ceil x = x"

fun finite_number :: "jsnum \<Rightarrow> bool" where
  "finite_number (Num a) = True"
| "finite_number x = False"

subsection \<open>Strings\<close>

definition lower_letters :: string where
  "lower_letters = ''abcdefghijklmnopqrstuvwxyz''"

definition upper_letters :: string where
  "upper_letters = ''ABCDEFGHIJKLMNOPQRSTUVWXYZ''"


definition toUpperCase :: "string \<Rightarrow> string" where
  "toUpperCase s =
     map (\<lambda>c. case map_of (zip lower_letters upper_letters) c of None \<Rightarrow> c | Some d \<Rightarrow> d) s"

definition toLowerCase :: "string \<Rightarrow> string" where
  "toLowerCase s =
     map (\<lambda>c. case map_of (zip upper_letters lower_letters) c of None \<Rightarrow> c | Some d \<Rightarrow> d) s"

definition startsWith :: "string \<Rightarrow> string \<Rightarrow> bool" where
  "startsWith s p = (take (length p) s = p)"

text \<open>\<open>s.replace(/-/g, "_")\<close>\<close>

definition replace_hyphens :: "string \<Rightarrow> string" where
  "replace_hyphens s = map (\<lambda>c. if c = CHR ''-'' then CHR ''_'' else c) s"

subsection \<open>The conversion of a string to a number\<close>

text \<open>
  \<open>Number(text)\<close>: white space around the text is dropped (the ASCII white space;
  JavaScript also drops the white space outside ASCII); the empty text is 0; then the
  text is a binary, octal or hexadecimal integer with its prefix, or a decimal literal
  with an optional sign, fraction and exponent, or a signed \<open>Infinity\<close>; any other
  text is \<open>NaN\<close>. The value is rounded to the nearest double.
\<close>

definition is_space :: "char \<Rightarrow> bool" where
  "is_space c = (c \<in> set [CHR 0x20, CHR 0x09, CHR 0x0A, CHR 0x0B, CHR 0x0C, CHR 0x0D])"

definition trim :: "string \<Rightarrow> string" where
  "trim s = rev (dropWhile is_space (rev (dropWhile is_space s)))"

definition is_digit :: "char \<Rightarrow> bool" where
  "is_digit c = (c \<in> set ''0123456789'')"

definition digit_value :: "char \<Rightarrow> nat option" where
  "digit_value c =
     map_of (zip ''0123456789abcdef'' [0, 1, 2, 3, 4, 5, 6, 7, 8, 9, 10, 11, 12, 13, 14, 15]
             @ zip ''ABCDEF'' [10, 11, 12, 13, 14, 15]) c"

fun radix_value :: "nat \<Rightarrow> nat \<Rightarrow> string \<Rightarrow> nat option" where
  "radix_value b acc [] = Some acc"
| "radix_value b acc (c # cs) =
     (case digit_value c of
        None \<Rightarrow> None
      | Some d \<Rightarrow> if d < b then radix_value b (acc * b + d) cs else None)"

text \<open>A non-empty run of digits of a base, as the number it writes.\<close>

definition digits_value :: "nat \<Rightarrow> string \<Rightarrow> nat option" where
  "digits_value b s = (if s = [] then None else radix_value b 0 s)"

definition pow10 :: "int \<Rightarrow> rat" where
  "pow10 k = (if 0 \<le> k then 10 ^ nat k else 1 / 10 ^ nat (- k))"

text \<open>What follows the digits of a decimal literal: nothing, or an exponent.\<close>

definition exponent_part :: "string \<Rightarrow> int option" where
  "exponent_part s =
     (case s of
        [] \<Rightarrow> Some 0
      | c # cs \<Rightarrow>
          if c = CHR ''e'' \<or> c = CHR ''E''
          then (case cs of
                  [] \<Rightarrow> None
                | d # ds \<Rightarrow>
                    if d = CHR ''+'' then map_option int (digits_value 10 ds)
                    else if d = CHR ''-'' then map_option (\<lambda>n. - int n) (digits_value 10 ds)
                    else map_option int (digits_value 10 cs))
          else None)"

text \<open>A decimal literal without its sign.\<close>

definition decimal_literal :: "string \<Rightarrow> jsnum" where
  "decimal_literal s =
     (if s = ''Infinity'' then PInf
      else
        (let ip = takeWhile is_digit s;
             r1 = dropWhile is_digit s;
             dot = (case r1 of [] \<Rightarrow> False | c # cs \<Rightarrow> c = CHR ''.'');
             fp = (if dot then takeWhile is_digit (tl r1) else []);
             r2 = (if dot then dropWhile is_digit (tl r1) else r1)
         in if ip = [] \<and> fp = [] then NaN
            else (case exponent_part r2 of
                    None \<Rightarrow> NaN
                  | Some x \<Rightarrow>
                      (case radix_value 10 0 (ip @ fp) of
                         None \<Rightarrow> NaN
                       | Some m \<Rightarrow> fl (of_nat m * pow10 (x - int (length fp)))))))"

text \<open>The base and the digits of a text with a radix prefix.\<close>

definition radix_prefix :: "string \<Rightarrow> (nat \<times> string) option" where
  "radix_prefix t =
     (if take 2 t = ''0x'' \<or> take 2 t = ''0X'' then Some (16, drop 2 t)
      else if take 2 t = ''0o'' \<or> take 2 t = ''0O'' then Some (8, drop 2 t)
      else if take 2 t = ''0b'' \<or> take 2 t = ''0B'' then Some (2, drop 2 t)
      else None)"

definition StringToNumber :: "string \<Rightarrow> jsnum" where
  "StringToNumber s =
     (let t = trim s
      in if t = [] then Num 0
         else (case radix_prefix t of
                 Some (b, ds) \<Rightarrow>
                   (case digits_value b ds of None \<Rightarrow> NaN | Some n \<Rightarrow> fl (of_nat n))
               | None \<Rightarrow>
                   (case t of
                      [] \<Rightarrow> NaN
                    | c # cs \<Rightarrow>
                        if c = CHR ''+'' then decimal_literal cs
                        else if c = CHR ''-'' then jneg (decimal_literal cs)
                        else decimal_literal t)))"

subsection \<open>The environment\<close>

text \<open>\<open>process.env\<close>: the variables that are set, each with its text.\<close>

type_synonym env = "(string \<times> string) list"

definition process_env :: "env \<Rightarrow> string \<Rightarrow> string option" where
  "process_env e name = map_of e name"

text \<open>\<open>Number(process.env[key])\<close>; \<open>Number(undefined)\<close> is \<open>NaN\<close>.\<close>

definition Number_env :: "string option \<Rightarrow> jsnum" where
  "Number_env v = (case v of None \<Rightarrow> NaN | Some text \<Rightarrow> StringToNumber text)"

definition isRateLimiterEnabled :: "env \<Rightarrow> bool" where
  "isRateLimiterEnabled e =
     (case process_env e ''RATELIMITER_ENABLED'' of
        None \<Rightarrow> False
      | Some v \<Rightarrow> toLowerCase v = ''true'')"

definition getTimeWindow :: "env \<Rightarrow> string \<Rightarrow> jsnum" where
  "getTimeWindow e model =
     (let key = (if model = ''plugins''
                 then ''RATELIMITER_TIME_PLUGINS_WINDOW_MINUTES''
                 else ''RATELIMITER_TIME_WINDOW_MINUTES'')
      in jmul (jmul (Number_env (process_env e key)) (Num 60)) (Num 1000))"

subsection \<open>Key derivation\<close>

definition u_getFixedModelName :: "string \<Rightarrow> string" where
  "u_getFixedModelName model =
     toUpperCase (replace_hyphens (if startsWith model ''gpt-4'' then ''gpt-4'' else model))"

definition u_makeStorageKey :: "string \<Rightarrow> string \<Rightarrow> string" where
  "u_makeStorageKey userId model =
     (let fixedModelName = u_getFixedModelName model
      in ''ratelimit:'' @ userId @ '':'' @ fixedModelName)"

subsection \<open>Limit resolution\<close>

text \<open>
  The two ways a call fails: the \<open>Error\<close> that \<open>_getLimit\<close> throws, and the error
  of the client when the store refuses a command.
\<close>

datatype error = Invalid_limit_configuration | Store_command_refused

definition tier_suffix :: "bool \<Rightarrow> string" where
  "tier_suffix isPremium = (if isPremium then ''PREMIUM'' else ''FREE'')"

text \<open>The name of the variable that holds the ceiling of a model and tier.\<close>

definition limitKey :: "string \<Rightarrow> bool \<Rightarrow> string" where
  "limitKey model isPremium =
     (if model = ''plugins''
      then ''RATELIMITER_LIMIT_'' @ toUpperCase model @ ''_'' @ tier_suffix isPremium
      else ''RATELIMITER_LIMIT_'' @ u_getFixedModelName model @ ''_'' @ tier_suffix isPremium)"

definition u_getLimit :: "env \<Rightarrow> string \<Rightarrow> bool \<Rightarrow> error + jsnum" where
  "u_getLimit e model isPremium =
     (let limit = (case process_env e (limitKey model isPremium) of
                     None \<Rightarrow> (if isPremium then Num 30 else Num 15)
                   | Some v \<Rightarrow> Number_env (Some v))
      in if isNaN limit \<or> jlt limit (Num 0)
         then Inl Invalid_limit_configuration
         else Inr limit)"

subsection \<open>The Redis connection\<close>

text \<open>
  A sorted set is the list of its entries in score order. The limiter writes every
  entry with the same number as member and as score, so an entry is that one number,
  and adding a number that is already a member leaves the set as it is (\<open>ZADD\<close>
  updates the score of an existing member). A key carries the time to live that
  \<open>EXPIRE\<close> last gave it, and \<open>EXPIRE\<close> with a time of zero or less deletes the key
  at once; the deletion of a key by Redis when its time has passed is not modelled.
  \<open>EXPIRE\<close> with a time that is not a finite number is refused: it changes nothing
  and the call that sent it throws (a finite time is taken to be one that Redis accepts), and inside a \<open>MULTI\<close> the other commands are
  carried out all the same (Redis does not roll a transaction back). Failures of the
  network are outside the model. The connection also keeps the trace of the commands
  sent over it.
\<close>

record zrec =
  events :: "int list"
  ttl :: "jsnum option"

datatype command =
    ZRANGE string
  | ZCARD string
  | DEL string
  | ZADD string int
  | EXPIRE string jsnum
  | MULTI "command list"

record redis =
  store :: "string \<Rightarrow> zrec option"
  trace :: "command list"

definition zadd_events :: "int \<Rightarrow> int list \<Rightarrow> int list" where
  "zadd_events t ts = (if t \<in> set ts then ts else insort t ts)"

fun apply_command :: "command \<Rightarrow> (string \<Rightarrow> zrec option) \<Rightarrow> (string \<Rightarrow> zrec option)"
  and apply_commands :: "command list \<Rightarrow> (string \<Rightarrow> zrec option) \<Rightarrow> (string \<Rightarrow> zrec option)"
where
  "apply_command (ZRANGE k) s = s"
| "apply_command (ZCARD k) s = s"
| "apply_command (DEL k) s = s(k := None)"
| "apply_command (ZADD k t) s =
     (case s k of
        None \<Rightarrow> s(k \<mapsto> \<lparr>events = [t], ttl = None\<rparr>)
      | Some z \<Rightarrow> s(k \<mapsto> z\<lparr>events := zadd_events t (events z)\<rparr>))"
| "apply_command (EXPIRE k n) s =
     (if finite_number n
      then (case s k of
              None \<Rightarrow> s
            | Some z \<Rightarrow> if jge (Num 0) n then s(k := None) else s(k \<mapsto> z\<lparr>ttl := Some n\<rparr>))
      else s)"
| "apply_command (MULTI cs) s = apply_commands cs s"
| "apply_commands [] s = s"
| "apply_commands (c # cs) s = apply_commands cs (apply_command c s)"

fun accepted :: "command \<Rightarrow> bool"
  and all_accepted :: "command list \<Rightarrow> bool"
where
  "accepted (EXPIRE k n) = finite_number n"
| "accepted (MULTI cs) = all_accepted cs"
| "accepted (ZRANGE k) = True"
| "accepted (ZCARD k) = True"
| "accepted (DEL k) = True"
| "accepted (ZADD k t) = True"
| "all_accepted [] = True"
| "all_accepted (c # cs) = (accepted c \<and> all_accepted cs)"

text \<open>Sending a command: its effect on the store, and its entry in the trace.\<close>

definition send :: "command \<Rightarrow> redis \<Rightarrow> redis" where
  "send c r = r\<lparr>store := apply_command c (store r), trace := trace r @ [c]\<rparr>"

text \<open>
  \<open>redis.zrange(key, 0, 0, { withScores: true })\<close>: the lowest entry as the flat list
  of its member and its score, or the empty list.
\<close>

definition zrange_lowest :: "redis \<Rightarrow> string \<Rightarrow> int list \<times> redis" where
  "zrange_lowest r key =
     ((case store r key of
         None \<Rightarrow> []
       | Some z \<Rightarrow> (case events z of [] \<Rightarrow> [] | t # _ \<Rightarrow> [t, t])),
      send (ZRANGE key) r)"

definition zcard :: "redis \<Rightarrow> string \<Rightarrow> nat \<times> redis" where
  "zcard r key =
     ((case store r key of None \<Rightarrow> 0 | Some z \<Rightarrow> length (events z)),
      send (ZCARD key) r)"

text \<open>
  The array pattern \<open>[firstMessageTime] = reply\<close>: the first element, or
  \<open>undefined\<close> (here \<open>None\<close>). The members of the set are numbers in the program
  (\<open>member: now\<close>) and are numbers when they are read back. The test
  \<open>!firstMessageTime\<close> is JavaScript's truthiness of that value: \<open>undefined\<close> and
  the number 0 are falsy. Clock readings and counts are integers that a double holds
  exactly.
\<close>

definition first_of :: "int list \<Rightarrow> int option" where
  "first_of reply = (case reply of [] \<Rightarrow> None | x # _ \<Rightarrow> Some x)"

fun truthy :: "int option \<Rightarrow> bool" where
  "truthy None = False"
| "truthy (Some t) = (t \<noteq> 0)"

fun Number_of :: "int option \<Rightarrow> jsnum" where
  "Number_of None = NaN"
| "Number_of (Some t) = Num (of_int t)"

subsection \<open>Window accounting\<close>

definition getRemaining ::
  "env \<Rightarrow> int \<Rightarrow> redis \<Rightarrow> string \<Rightarrow> string \<Rightarrow> bool
     \<Rightarrow> (error + jsnum \<times> jsnum option) \<times> redis" where
  "getRemaining e now r userId model isPremium =
     (let storageKey = u_makeStorageKey userId model;
          timeWindow = getTimeWindow e model
      in case u_getLimit e model isPremium of
           Inl err \<Rightarrow> (Inl err, r)
         | Inr limit \<Rightarrow>
             (let (reply, r1) = zrange_lowest r storageKey;
                  (count, r2) = zcard r1 storageKey;
                  firstMessageTime = first_of reply
              in if \<not> truthy firstMessageTime then (Inr (limit, None), r2)
                 else
                   (let windowEndTime = jadd (Number_of firstMessageTime) timeWindow
                    in if jge (Num (of_int now)) windowEndTime then (Inr (limit, None), r2)
                       else
                         (let remaining = Math_max (Num 0) (jsub limit (Num (of_nat count)))
                          in (Inr (remaining,
                                   if jeq remaining (Num 0)
                                   then Some (jsub windowEndTime (Num (of_int now)))
                                   else None),
                              r2)))))"

subsection \<open>Mutation\<close>

text \<open>
  \<open>_addRequest\<close> returns nothing; it throws when the store refuses what it sends.
\<close>

definition u_addRequest ::
  "env \<Rightarrow> int \<Rightarrow> redis \<Rightarrow> string \<Rightarrow> string \<Rightarrow> (error + unit) \<times> redis" where
  "u_addRequest e now r key model =
     (let timeWindow = getTimeWindow e model;
          (reply, r1) = zrange_lowest r key;
          firstMessageTime = first_of reply;
          command =
            (if \<not> truthy firstMessageTime
                \<or> jge (jsub (Num (of_int now)) (Number_of firstMessageTime)) timeWindow
             then MULTI [DEL key, ZADD key now,
                         EXPIRE key (Math_ceil (jdiv timeWindow (Num 1000)))]
             else ZADD key now)
      in (if accepted command then Inr () else Inl Store_command_refused, send command r1))"

subsection \<open>Admission\<close>

record RateLimitResult =
  allowed :: bool
  remaining :: jsnum
  timeRemaining :: "jsnum option"

text \<open>
  \<open>_ratelimit\<close> reads the clock twice: in \<open>getRemaining\<close> (\<open>now1\<close>) and in
  \<open>_addRequest\<close> (\<open>now2\<close>).
\<close>

definition u_ratelimit ::
  "env \<Rightarrow> int \<Rightarrow> int \<Rightarrow> redis \<Rightarrow> string \<Rightarrow> string \<Rightarrow> bool
     \<Rightarrow> (error + RateLimitResult) \<times> redis" where
  "u_ratelimit e now1 now2 r model userId isPremium =
     (let storageKey = u_makeStorageKey userId model
      in case getRemaining e now1 r userId model isPremium of
           (Inl err, r1) \<Rightarrow> (Inl err, r1)
         | (Inr (rem, timeRem), r1) \<Rightarrow>
             if jeq rem (Num 0)
             then (Inr \<lparr>allowed = False, remaining = rem, timeRemaining = timeRem\<rparr>, r1)
             else (case u_addRequest e now2 r1 storageKey model of
                     (Inl err, r2) \<Rightarrow> (Inl err, r2)
                   | (Inr done, r2) \<Rightarrow>
                       (Inr \<lparr>allowed = True, remaining = jsub rem (Num 1),
                            timeRemaining = None\<rparr>, r2)))"

definition bypass :: RateLimitResult where
  "bypass = \<lparr>allowed = True, remaining = Num (- 1), timeRemaining = None\<rparr>"

text \<open>
  \<open>isPremiumUser\<close> lives in another module (subscription-utils); it is an argument.
\<close>

definition ratelimit ::
  "env \<Rightarrow> (string \<Rightarrow> bool) \<Rightarrow> int \<Rightarrow> int \<Rightarrow> redis \<Rightarrow> string \<Rightarrow> string
     \<Rightarrow> (error + RateLimitResult) \<times> redis" where
  "ratelimit e isPremiumUser now1 now2 r userId model =
     (if \<not> isRateLimiterEnabled e then (Inr bypass, r)
      else u_ratelimit e now1 now2 r model userId (isPremiumUser userId))"

definition checkRateLimitWithoutIncrementing ::
  "env \<Rightarrow> (string \<Rightarrow> bool) \<Rightarrow> int \<Rightarrow> redis \<Rightarrow> string \<Rightarrow> string
     \<Rightarrow> (error + RateLimitResult) \<times> redis" where
  "checkRateLimitWithoutIncrementing e isPremiumUser now r userId model =
     (if \<not> isRateLimiterEnabled e then (Inr bypass, r)
      else case getRemaining e now r userId model (isPremiumUser userId) of
             (Inl err, r1) \<Rightarrow> (Inl err, r1)
           | (Inr (rem, timeRem), r1) \<Rightarrow>
               if jeq rem (Num 0)
               then (Inr \<lparr>allowed = False, remaining = Num 0, timeRemaining = timeRem\<rparr>, r1)
               else (Inr \<lparr>allowed = True, remaining = rem, timeRemaining = None\<rparr>, r1))"

definition resetRateLimit :: "redis \<Rightarrow> string \<Rightarrow> string \<Rightarrow> redis" where
  "resetRateLimit r model userId = send (DEL (u_makeStorageKey userId model)) r"

subsection \<open>Runs, and the contents of a record\<close>

text \<open>The entries of the record under a key; none when the key is absent.\<close>

definition record_events :: "redis \<Rightarrow> string \<Rightarrow> int list" where
  "record_events r key = (case store r key of None \<Rightarrow> [] | Some z \<Rightarrow> events z)"

text \<open>
  A sequence of calls of \<open>_ratelimit\<close> for one user and model, each with its two clock
  readings, and the results in order.
\<close>

fun admits ::
  "env \<Rightarrow> redis \<Rightarrow> string \<Rightarrow> string \<Rightarrow> bool \<Rightarrow> (int \<times> int) list
     \<Rightarrow> (error + RateLimitResult) list \<times> redis" where
  "admits e r model userId isPremium [] = ([], r)"
| "admits e r model userId isPremium ((now1, now2) # clock) =
     (case u_ratelimit e now1 now2 r model userId isPremium of
        (res, r1) \<Rightarrow>
          (case admits e r1 model userId isPremium clock of
             (ress, r2) \<Rightarrow> (res # ress, r2)))"

text \<open>
  A sequence of calls of \<open>checkRateLimitWithoutIncrementing\<close>, each for a user, a
  model and a clock reading of its own.
\<close>

fun peeks ::
  "env \<Rightarrow> (string \<Rightarrow> bool) \<Rightarrow> redis \<Rightarrow> (string \<times> string \<times> int) list \<Rightarrow> redis" where
  "peeks e isPremiumUser r [] = r"
| "peeks e isPremiumUser r ((userId, model, now) # calls) =
     peeks e isPremiumUser
       (snd (checkRateLimitWithoutIncrementing e isPremiumUser now r userId model)) calls"

subsection \<open>Configurations and stores used as examples\<close>

text \<open>
  The limiter switched on, a window of one sixtieth of a minute (the double nearest to
  it, which times 60 and times 1000 is 1000 ms) and a ceiling of 2 for the free tier of
  the GPT-4 family.
\<close>

definition env_limit2 :: env where
  "env_limit2 =
     [(''RATELIMITER_ENABLED'', ''true''),
      (''RATELIMITER_TIME_WINDOW_MINUTES'', ''0.016666666666666666''),
      (''RATELIMITER_LIMIT_GPT_4_FREE'', ''2'')]"

text \<open>The limiter switched on, a window of one minute, a ceiling of 0.\<close>

definition env_limit0 :: env where
  "env_limit0 =
     [(''RATELIMITER_ENABLED'', ''TRUE''),
      (''RATELIMITER_TIME_WINDOW_MINUTES'', ''1''),
      (''RATELIMITER_LIMIT_GPT_4_FREE'', ''0'')]"


definition free_tier :: "string \<Rightarrow> bool" where
  "free_tier userId = False"

definition empty_redis :: redis where
  "empty_redis = \<lparr>store = (\<lambda>k. None), trace = []\<rparr>"

text \<open>A store where user \<open>u1\<close> has used the GPT-4 family at the instants 100 and 200.\<close>

definition used_redis :: redis where
  "used_redis =
     \<lparr>store = (\<lambda>k. None)(''ratelimit:u1:GPT_4'' \<mapsto> \<lparr>events = [100, 200], ttl = Some (Num 1)\<rparr>),
      trace = []\<rparr>"

text \<open>
  Two stores whose record holds the reading 0: alone, as a call at the clock reading 0
  leaves it, and with a second entry.
\<close>

definition zero_redis :: redis where
  "zero_redis =
     \<lparr>store = (\<lambda>k. None)(''ratelimit:u1:GPT_4'' \<mapsto> \<lparr>events = [0], ttl = Some (Num 1)\<rparr>),
      trace = []\<rparr>"

definition zero_fifty_redis :: redis where
  "zero_fifty_redis =
     \<lparr>store = (\<lambda>k. None)(''ratelimit:u1:GPT_4'' \<mapsto> \<lparr>events = [0, 50], ttl = Some (Num 1)\<rparr>),
      trace = []\<rparr>"

text \<open>The limit variable of the free tier of the GPT-4 family, set to a given text.\<close>

definition env_with_limit :: "string \<Rightarrow> env" where
  "env_with_limit text_of_limit =
     [(''RATELIMITER_ENABLED'', ''true''),
      (''RATELIMITER_TIME_WINDOW_MINUTES'', ''1''),
      (''RATELIMITER_LIMIT_GPT_4_FREE'', text_of_limit)]"

section \<open>Properties\<close>

subsection \<open>Evaluation\<close>

lemma floor_rat_numeral_div [simp]:
  "\<lfloor>(numeral a :: rat) / numeral b\<rfloor> = numeral a div numeral b"
  using floor_divide_of_int_eq [of "numeral a" "numeral b", where ?'a = rat] by simp

lemma ceiling_rat_numeral_div [simp]:
  "\<lceil>(numeral a :: rat) / numeral b\<rceil> = - (- numeral a div numeral b)"
  using ceiling_divide_eq_div [of "numeral a" "numeral b", where ?'a = rat] by simp

lemmas string_defs = toUpperCase_def toLowerCase_def lower_letters_def upper_letters_def
  startsWith_def replace_hyphens_def

text \<open>Rounding: of an integer that a double holds, and of any value.\<close>

lemmas int_defs = fl_def exact_int_def jsub_def signed_inf_def

lemmas fl_defs = int_defs nearest_double_def round_half_even_def binade_def pow2_def Let_def

lemmas number_defs = StringToNumber_def trim_def is_space_def is_digit_def digit_value_def
  digits_value_def pow10_def exponent_part_def decimal_literal_def radix_prefix_def
  Number_env_def process_env_def

lemmas config_defs = u_getLimit_def getTimeWindow_def limitKey_def tier_suffix_def
  u_getFixedModelName_def isRateLimiterEnabled_def number_defs fl_defs string_defs

lemmas model_defs = u_makeStorageKey_def u_getFixedModelName_def
  zrange_lowest_def zcard_def send_def first_of_def zadd_events_def
  getRemaining_def u_addRequest_def u_ratelimit_def ratelimit_def
  checkRateLimitWithoutIncrementing_def bypass_def int_defs Let_def

lemmas example_defs = free_tier_def empty_redis_def used_redis_def zero_redis_def
  zero_fifty_redis_def record_events_def

lemma number_of_sixtieth:
  "StringToNumber ''0.016666666666666666'' = Num (4803839602528529 / 288230376151711744)"
  by (simp add: number_defs fl_defs)

lemma window_of_env_limit2: "getTimeWindow env_limit2 ''gpt-4'' = Num 1000"
  by (simp add: env_limit2_def getTimeWindow_def Number_env_def process_env_def
      number_of_sixtieth fl_defs)

lemma limit_of_env_limit2: "u_getLimit env_limit2 ''gpt-4'' False = Inr (Num 2)"
  by (simp add: env_limit2_def config_defs)

lemma enabled_env_limit2: "isRateLimiterEnabled env_limit2"
  by (simp add: env_limit2_def isRateLimiterEnabled_def process_env_def string_defs)

lemma window_of_env_limit0: "getTimeWindow env_limit0 ''gpt-4'' = Num 60000"
  by (simp add: env_limit0_def config_defs)

lemma limit_of_env_limit0: "u_getLimit env_limit0 ''gpt-4'' False = Inr (Num 0)"
  by (simp add: env_limit0_def config_defs)

lemma enabled_env_limit0: "isRateLimiterEnabled env_limit0"
  by (simp add: env_limit0_def isRateLimiterEnabled_def process_env_def string_defs)




text \<open>
  A window of 8.3 minutes: the doubles give 498000.00000000006 ms, and the expiry sent
  is 499 seconds.
\<close>

lemma window_of_8_3_minutes:
  "getTimeWindow [(''RATELIMITER_TIME_WINDOW_MINUTES'', ''8.3'')] ''gpt-4''
     = Num (8555574853632001 / 17179869184)
   \<and> Math_ceil (jdiv (getTimeWindow [(''RATELIMITER_TIME_WINDOW_MINUTES'', ''8.3'')] ''gpt-4'')
        (Num 1000)) = Num 499"
  by (simp add: config_defs)

lemma fixed_gpt4: "u_getFixedModelName ''gpt-4'' = ''GPT_4''"
  by (simp add: u_getFixedModelName_def string_defs)

lemma fixed_gpt4_turbo: "u_getFixedModelName ''gpt-4-turbo'' = ''GPT_4''"
  by (simp add: u_getFixedModelName_def string_defs)

lemma key_u1_gpt4: "u_makeStorageKey ''u1'' ''gpt-4'' = ''ratelimit:u1:GPT_4''"
  by (simp add: u_makeStorageKey_def fixed_gpt4)

subsection \<open>Records and replies\<close>

lemma set_zadd_events: "set (zadd_events t ts) = insert t (set ts)"
  by (simp add: zadd_events_def set_insort_key insert_absorb)

lemma length_zadd_events:
  "(if t \<in> set ts then zadd_events t ts = ts
    else length (zadd_events t ts) = Suc (length ts))"
  by (simp add: zadd_events_def)

text \<open>Insertion keeps a record in score order and free of repetitions.\<close>

lemma sorted_zadd_events: "sorted ts \<Longrightarrow> sorted (zadd_events t ts)"
  by (simp add: zadd_events_def sorted_insort)

lemma distinct_zadd_events: "distinct ts \<Longrightarrow> distinct (zadd_events t ts)"
  by (simp add: zadd_events_def distinct_insort)

lemma first_of_lowest:
  "first_of (fst (zrange_lowest r key)) =
     (case record_events r key of [] \<Rightarrow> None | t # _ \<Rightarrow> Some t)"
  by (simp add: zrange_lowest_def first_of_def record_events_def
      split: option.splits list.splits)


lemma zcard_after_zrange:
  "fst (zcard (snd (zrange_lowest r key)) key) = length (record_events r key)"
  by (simp add: zcard_def zrange_lowest_def send_def record_events_def split: option.splits)

lemma record_events_cong: "store r = store r' \<Longrightarrow> record_events r key = record_events r' key"
  by (simp add: record_events_def)

subsection \<open>What the read path returns and leaves behind\<close>

lemma getRemaining_store: "store (snd (getRemaining e now r userId model p)) = store r"
  by (simp add: getRemaining_def zrange_lowest_def zcard_def send_def Let_def
      split: sum.splits)

lemma getRemaining_cong:
  "store r = store r' \<Longrightarrow>
   fst (getRemaining e now r userId model p) = fst (getRemaining e now r' userId model p)"
  by (simp add: getRemaining_def zrange_lowest_def zcard_def send_def Let_def
      split: sum.splits)




text \<open>
  The answer of \<open>getRemaining\<close> as a function of the record. A lowest entry that is
  the number 0 is falsy, and is answered like an absent record.
\<close>

lemma getRemaining_value:
  assumes "u_getLimit e model p = Inr limit"
  shows "fst (getRemaining e now r userId model p) =
     (case record_events r (u_makeStorageKey userId model) of
        [] \<Rightarrow> Inr (limit, None)
      | t # ts \<Rightarrow>
          if t = 0 then Inr (limit, None)
          else if jge (Num (of_int now)) (jadd (Num (of_int t)) (getTimeWindow e model))
          then Inr (limit, None)
          else Inr (Math_max (Num 0) (jsub limit (Num (of_nat (length (t # ts))))),
                    if jeq (Math_max (Num 0) (jsub limit (Num (of_nat (length (t # ts))))))
                         (Num 0)
                    then Some (jsub (jadd (Num (of_int t)) (getTimeWindow e model))
                                 (Num (of_int now)))
                    else None))"
  using assms
  by (simp add: getRemaining_def Let_def split_beta first_of_lowest zcard_after_zrange
      split: list.splits)

subsection \<open>What the write path does\<close>

lemma addRequest_cong:
  assumes "store r = store r'"
  shows "fst (u_addRequest e now r key model) = fst (u_addRequest e now r' key model)"
    and "store (snd (u_addRequest e now r key model))
         = store (snd (u_addRequest e now r' key model))"
  using assms by (simp_all add: u_addRequest_def zrange_lowest_def send_def Let_def)




subsection \<open>The two operations\<close>


lemma u_ratelimit_cong:
  assumes "store r = store r'"
  shows "fst (u_ratelimit e now1 now2 r model userId p)
         = fst (u_ratelimit e now1 now2 r' model userId p)"
    and "store (snd (u_ratelimit e now1 now2 r model userId p))
         = store (snd (u_ratelimit e now1 now2 r' model userId p))"
proof -
  obtain a s where g: "getRemaining e now1 r userId model p = (a, s)"
    by (cases "getRemaining e now1 r userId model p")
  obtain a' s' where g': "getRemaining e now1 r' userId model p = (a', s')"
    by (cases "getRemaining e now1 r' userId model p")
  have a: "a' = a"
    using getRemaining_cong [OF assms, of e now1 userId model p] g g' by simp
  have s: "store s = store s'"
    using getRemaining_store [of e now1 r userId model p]
      getRemaining_store [of e now1 r' userId model p] g g' assms by simp
  obtain b t where w: "u_addRequest e now2 s (u_makeStorageKey userId model) model = (b, t)"
    by (cases "u_addRequest e now2 s (u_makeStorageKey userId model) model")
  obtain b' t' where w': "u_addRequest e now2 s' (u_makeStorageKey userId model) model = (b', t')"
    by (cases "u_addRequest e now2 s' (u_makeStorageKey userId model) model")
  have b: "b' = b" and t: "store t = store t'"
    using addRequest_cong [OF s, of e now2 "u_makeStorageKey userId model" model] w w'
    by simp_all
  show "fst (u_ratelimit e now1 now2 r model userId p)
        = fst (u_ratelimit e now1 now2 r' model userId p)"
    by (simp add: u_ratelimit_def g g' a w w' b split: sum.splits prod.splits)
  show "store (snd (u_ratelimit e now1 now2 r model userId p))
        = store (snd (u_ratelimit e now1 now2 r' model userId p))"
    using s t by (simp add: u_ratelimit_def g g' a w w' b split: sum.splits prod.splits)
qed

lemma peek_store:
  "store (snd (checkRateLimitWithoutIncrementing e prem now r userId model)) = store r"
proof -
  obtain a s where g: "getRemaining e now r userId model (prem userId) = (a, s)"
    by (cases "getRemaining e now r userId model (prem userId)")
  have "store s = store r"
    using getRemaining_store [of e now r userId model "prem userId"] g by simp
  then show ?thesis
    by (simp add: checkRateLimitWithoutIncrementing_def g split: sum.splits prod.splits)
qed

lemma peeks_store: "store (peeks e prem r calls) = store r"
proof (induction calls arbitrary: r)
  case Nil
  show ?case by simp
next
  case (Cons c calls)
  obtain userId model now where c: "c = (userId, model, now)"
    by (cases c)
  show ?case
    by (simp add: c Cons.IH peek_store)
qed

text \<open>The commands of a peek are the two reads of \<open>getRemaining\<close>, or none.\<close>

lemma peek_trace:
  "trace (snd (checkRateLimitWithoutIncrementing e prem now r userId model)) = trace r
   \<or> trace (snd (checkRateLimitWithoutIncrementing e prem now r userId model))
       = trace r @ [ZRANGE (u_makeStorageKey userId model),
                    ZCARD (u_makeStorageKey userId model)]"
  by (simp add: checkRateLimitWithoutIncrementing_def getRemaining_def zrange_lowest_def
      zcard_def send_def Let_def split: sum.splits)

subsection \<open>The peek\<close>

text \<open>
  Claim C4. \<open>checkRateLimitWithoutIncrementing\<close> leaves the store as it found it (the
  commands it sends are the two reads, or none), and so does any sequence of such calls,
  for any users, models and clock readings. A call of \<open>ratelimit\<close> after such a
  sequence returns the result, and leaves the store, that it would have without the
  sequence.
\<close>

theorem peek_performs_no_mutation:
  "store (snd (checkRateLimitWithoutIncrementing e prem now r userId model)) = store r
   \<and> (trace (snd (checkRateLimitWithoutIncrementing e prem now r userId model)) = trace r
      \<or> trace (snd (checkRateLimitWithoutIncrementing e prem now r userId model))
          = trace r @ [ZRANGE (u_makeStorageKey userId model),
                       ZCARD (u_makeStorageKey userId model)])
   \<and> store (peeks e prem r calls) = store r
   \<and> fst (ratelimit e prem now1 now2 (peeks e prem r calls) userId' model')
       = fst (ratelimit e prem now1 now2 r userId' model')
   \<and> store (snd (ratelimit e prem now1 now2 (peeks e prem r calls) userId' model'))
       = store (snd (ratelimit e prem now1 now2 r userId' model'))"
  using u_ratelimit_cong [OF peeks_store] peek_trace [of e prem now r userId model]
  by (simp add: peek_store peeks_store ratelimit_def)

subsection \<open>Storage keys\<close>

text \<open>
  Claim C9. For every user the models \<open>gpt-4-turbo\<close> and \<open>gpt-4\<close> have the same
  storage key; two different users have different keys for \<open>gpt-4\<close>; and equal
  inputs give equal keys.
\<close>

theorem storage_key_family_and_users:
  "u_makeStorageKey u ''gpt-4-turbo'' = u_makeStorageKey u ''gpt-4''
   \<and> (u \<noteq> u2 \<longrightarrow> u_makeStorageKey u ''gpt-4'' \<noteq> u_makeStorageKey u2 ''gpt-4'')
   \<and> (u = u' \<and> m = m' \<longrightarrow> u_makeStorageKey u m = u_makeStorageKey u' m')"
  by (simp add: u_makeStorageKey_def fixed_gpt4 fixed_gpt4_turbo)

theorem storage_key_family_and_users_witness:
  "''alice'' \<noteq> ''bob''
   \<and> u_makeStorageKey ''alice'' ''gpt-4-turbo'' = ''ratelimit:alice:GPT_4''
   \<and> u_makeStorageKey ''alice'' ''gpt-4'' = ''ratelimit:alice:GPT_4''
   \<and> u_makeStorageKey ''alice'' ''gpt-4'' \<noteq> u_makeStorageKey ''bob'' ''gpt-4''"
  using storage_key_family_and_users [of "''alice''" "''bob''" "''alice''" "''gpt-4''" "''gpt-4''"]
  by (simp add: u_makeStorageKey_def fixed_gpt4)

subsection \<open>The switch\<close>

text \<open>
  Claim C6, as the code has it. The limiter is on exactly when
  \<open>RATELIMITER_ENABLED\<close> is set and its text is \<open>true\<close> in any mix of cases. When it
  is not on (in particular when the variable is not set at all) \<open>ratelimit\<close> and
  \<open>checkRateLimitWithoutIncrementing\<close> return the allowed result with remaining -1 and
  no time, and the connection is as it was: no command is sent.
\<close>

theorem disabled_bypass:
  "(isRateLimiterEnabled e \<longleftrightarrow>
      (\<exists>v. process_env e ''RATELIMITER_ENABLED'' = Some v \<and> toLowerCase v = ''true''))
   \<and> (\<not> isRateLimiterEnabled e \<longrightarrow>
        ratelimit e prem now1 now2 r userId model
          = (Inr \<lparr>allowed = True, remaining = Num (- 1), timeRemaining = None\<rparr>, r)
        \<and> checkRateLimitWithoutIncrementing e prem now r userId model
          = (Inr \<lparr>allowed = True, remaining = Num (- 1), timeRemaining = None\<rparr>, r))"
  by (simp add: isRateLimiterEnabled_def ratelimit_def checkRateLimitWithoutIncrementing_def
      bypass_def split: option.splits)

theorem disabled_bypass_witness:
  "\<not> isRateLimiterEnabled [(''RATELIMITER_ENABLED'', ''false'')]
   \<and> ratelimit [(''RATELIMITER_ENABLED'', ''false'')] free_tier 300 300 used_redis
        ''u1'' ''gpt-4''
       = (Inr \<lparr>allowed = True, remaining = Num (- 1), timeRemaining = None\<rparr>, used_redis)
   \<and> checkRateLimitWithoutIncrementing [(''RATELIMITER_ENABLED'', ''false'')]
        free_tier 300 used_redis ''u1'' ''gpt-4''
       = (Inr \<lparr>allowed = True, remaining = Num (- 1), timeRemaining = None\<rparr>, used_redis)"
  using disabled_bypass [of "[(''RATELIMITER_ENABLED'', ''false'')]" free_tier
      300 300 used_redis "''u1''" "''gpt-4''" 300]
  by (simp add: process_env_def string_defs)

text \<open>
  With no variable set at all the limiter is off: the user \<open>u1\<close>, whose record holds
  two requests, is answered with the bypass.
\<close>

theorem bypass_is_the_default:
  "process_env [] ''RATELIMITER_ENABLED'' = None
   \<and> \<not> isRateLimiterEnabled []
   \<and> ratelimit [] free_tier 300 300 used_redis ''u1'' ''gpt-4''
       = (Inr \<lparr>allowed = True, remaining = Num (- 1), timeRemaining = None\<rparr>, used_redis)"
  by (simp add: process_env_def isRateLimiterEnabled_def ratelimit_def bypass_def)

subsection \<open>A stored reading of 0\<close>


text \<open>
  Claim C3, at two failing inputs, window 1000 ms. On the record that holds the reading
  0 alone, with the clock at 100, the record is there and less than a window old, so
  the reading should be added to it; \<open>_addRequest\<close> takes the 0 for no record and
  sends the transaction that starts a new window. On the record of the readings 100
  and 200, with the clock at 200, it sends the insertion, and the record is as it was:
  no event is added.
\<close>

theorem addRequest_at_failing_records:
  "getTimeWindow env_limit2 ''gpt-4'' = Num 1000
   \<and> trace (snd (u_addRequest env_limit2 100 zero_redis ''ratelimit:u1:GPT_4'' ''gpt-4''))
       = [ZRANGE ''ratelimit:u1:GPT_4'',
          MULTI [DEL ''ratelimit:u1:GPT_4'', ZADD ''ratelimit:u1:GPT_4'' 100,
                 EXPIRE ''ratelimit:u1:GPT_4'' (Num 1)]]
   \<and> record_events
        (snd (u_addRequest env_limit2 100 zero_redis ''ratelimit:u1:GPT_4'' ''gpt-4''))
        ''ratelimit:u1:GPT_4'' = [100]
   \<and> record_events used_redis ''ratelimit:u1:GPT_4'' = [100, 200]
   \<and> trace (snd (u_addRequest env_limit2 200 used_redis ''ratelimit:u1:GPT_4'' ''gpt-4''))
       = [ZRANGE ''ratelimit:u1:GPT_4'', ZADD ''ratelimit:u1:GPT_4'' 200]
   \<and> record_events
        (snd (u_addRequest env_limit2 200 used_redis ''ratelimit:u1:GPT_4'' ''gpt-4''))
        ''ratelimit:u1:GPT_4'' = [100, 200]"
  by (simp add: model_defs string_defs window_of_env_limit2 example_defs)

theorem addRequest_at_failing_records_witness:
  "record_events
     (snd (u_addRequest env_limit2 100 zero_redis ''ratelimit:u1:GPT_4'' ''gpt-4''))
     ''ratelimit:u1:GPT_4'' = [100]
   \<and> record_events
        (snd (u_addRequest env_limit2 200 used_redis ''ratelimit:u1:GPT_4'' ''gpt-4''))
        ''ratelimit:u1:GPT_4'' = record_events used_redis ''ratelimit:u1:GPT_4''"
  using addRequest_at_failing_records by simp

subsection \<open>The window-reset scenario\<close>


subsection \<open>Two requests in one millisecond\<close>

text \<open>
  Claim C1, at a failing run. Limit 2, window 1000 ms, an empty record, and three calls
  that all read the clock at 1700000000000: the second call adds a member the set
  already has, the record stays at one entry, and the third call is admitted as well.
\<close>

theorem same_millisecond_run:
  "fst (admits env_limit2 empty_redis ''gpt-4'' ''u1'' False
          [(1700000000000, 1700000000000), (1700000000000, 1700000000000),
           (1700000000000, 1700000000000)])
   = [Inr \<lparr>allowed = True, remaining = Num 1, timeRemaining = None\<rparr>,
      Inr \<lparr>allowed = True, remaining = Num 0, timeRemaining = None\<rparr>,
      Inr \<lparr>allowed = True, remaining = Num 0, timeRemaining = None\<rparr>]
   \<and> record_events
       (snd (admits env_limit2 empty_redis ''gpt-4'' ''u1'' False
          [(1700000000000, 1700000000000), (1700000000000, 1700000000000),
           (1700000000000, 1700000000000)])) ''ratelimit:u1:GPT_4''
     = [1700000000000]"
  by (simp add: model_defs string_defs window_of_env_limit2 limit_of_env_limit2 example_defs)

subsection \<open>A denial with no time\<close>

text \<open>
  Claim C10, at a failing input. With a ceiling of 0 and no record, both operations
  deny the request, and the time they give is \<open>null\<close>.
\<close>

theorem denied_without_time:
  "u_getLimit env_limit0 ''gpt-4'' False = Inr (Num 0)
   \<and> fst (u_ratelimit env_limit0 1700000000000 1700000000000 empty_redis ''gpt-4'' ''u1'' False)
       = Inr \<lparr>allowed = False, remaining = Num 0, timeRemaining = None\<rparr>
   \<and> fst (checkRateLimitWithoutIncrementing env_limit0 free_tier 1700000000000 empty_redis
            ''u1'' ''gpt-4'')
       = Inr \<lparr>allowed = False, remaining = Num 0, timeRemaining = None\<rparr>"
  by (simp add: model_defs string_defs window_of_env_limit0 limit_of_env_limit0
      enabled_env_limit0 example_defs)

subsection \<open>Limit resolution\<close>

lemma getLimit_absent:
  "process_env e (limitKey model p) = None \<Longrightarrow>
   u_getLimit e model p = Inr (Num (if p then 30 else 15))"
  by (simp add: u_getLimit_def)

lemma getLimit_present:
  "process_env e (limitKey model p) = Some v \<Longrightarrow>
   u_getLimit e model p =
     (if StringToNumber v = NaN \<or> jlt (StringToNumber v) (Num 0)
      then Inl Invalid_limit_configuration else Inr (StringToNumber v))"
  by (cases "StringToNumber v") (simp_all add: u_getLimit_def Number_env_def)

text \<open>
  What \<open>_getLimit\<close> does, in terms of \<open>Number\<close>: the defaults for a variable that is
  not set; an error for a text that \<open>Number\<close> reads as \<open>NaN\<close> or as a negative
  number; the number read, for any other text.
\<close>

lemma getLimit_resolution:
  "u_getLimit e model p =
     (case process_env e (limitKey model p) of
        None \<Rightarrow> Inr (Num (if p then 30 else 15))
      | Some v \<Rightarrow>
          if StringToNumber v = NaN \<or> jlt (StringToNumber v) (Num 0)
          then Inl Invalid_limit_configuration else Inr (StringToNumber v))"
  by (simp add: getLimit_absent getLimit_present split: option.splits)

lemma limit_key_gpt4_free: "limitKey ''gpt-4'' False = ''RATELIMITER_LIMIT_GPT_4_FREE''"
  by (simp add: limitKey_def tier_suffix_def fixed_gpt4)

text \<open>
  Claim C7, at failing inputs. The limit variable of the free tier of the GPT-4 family
  is set, and its text is empty or blank: no number is written there, yet
  \<open>Number\<close> reads 0, \<open>_getLimit\<close> does not throw, and the ceiling is 0. Set to
  \<open>Infinity\<close>, the ceiling is without bound.
\<close>

theorem blank_limit_accepted:
  "process_env (env_with_limit '''') (limitKey ''gpt-4'' False) = Some ''''
   \<and> u_getLimit (env_with_limit '''') ''gpt-4'' False = Inr (Num 0)
   \<and> process_env (env_with_limit ''   '') (limitKey ''gpt-4'' False) = Some ''   ''
   \<and> u_getLimit (env_with_limit ''   '') ''gpt-4'' False = Inr (Num 0)
   \<and> u_getLimit (env_with_limit ''Infinity'') ''gpt-4'' False = Inr PInf
   \<and> u_getLimit (env_with_limit ''many'') ''gpt-4'' False = Inl Invalid_limit_configuration
   \<and> u_getLimit (env_with_limit ''-3'') ''gpt-4'' False = Inl Invalid_limit_configuration"
  by (simp add: getLimit_resolution limit_key_gpt4_free env_with_limit_def process_env_def
      number_defs fl_defs)

subsection \<open>Failures\<close>








subsection \<open>The same operations away from the failing inputs\<close>

text \<open>
  On the record of the readings 100 and 200, with limit 2 and a window of 1000 ms,
  \<open>getRemaining\<close> answers as expected: nothing left and 800 ms to wait at the clock
  reading 300, the whole limit once the window has passed, and the whole limit for a
  user without a record.
\<close>

lemma getRemaining_on_used_record:
  "fst (getRemaining env_limit2 300 used_redis ''u1'' ''gpt-4'' False)
     = Inr (Num 0, Some (Num 800))
   \<and> fst (getRemaining env_limit2 1100 used_redis ''u1'' ''gpt-4'' False) = Inr (Num 2, None)
   \<and> fst (getRemaining env_limit2 300 empty_redis ''u1'' ''gpt-4'' False) = Inr (Num 2, None)"
  by (simp add: model_defs string_defs window_of_env_limit2 limit_of_env_limit2 example_defs)

text \<open>
  On the same record \<open>_addRequest\<close> adds a new reading inside the window and keeps
  the expiry, and starts a new window, with its expiry, once the old one has passed.
\<close>

lemma addRequest_on_used_record:
  "store (snd (u_addRequest env_limit2 300 used_redis ''ratelimit:u1:GPT_4'' ''gpt-4''))
     ''ratelimit:u1:GPT_4'' = Some \<lparr>events = [100, 200, 300], ttl = Some (Num 1)\<rparr>
   \<and> trace (snd (u_addRequest env_limit2 300 used_redis ''ratelimit:u1:GPT_4'' ''gpt-4''))
       = [ZRANGE ''ratelimit:u1:GPT_4'', ZADD ''ratelimit:u1:GPT_4'' 300]
   \<and> store (snd (u_addRequest env_limit2 1100 used_redis ''ratelimit:u1:GPT_4'' ''gpt-4''))
       ''ratelimit:u1:GPT_4'' = Some \<lparr>events = [1100], ttl = Some (Num 1)\<rparr>
   \<and> trace (snd (u_addRequest env_limit2 1100 used_redis ''ratelimit:u1:GPT_4'' ''gpt-4''))
       = [ZRANGE ''ratelimit:u1:GPT_4'',
          MULTI [DEL ''ratelimit:u1:GPT_4'', ZADD ''ratelimit:u1:GPT_4'' 1100,
                 EXPIRE ''ratelimit:u1:GPT_4'' (Num 1)]]"
  by (simp add: model_defs string_defs window_of_env_limit2 example_defs)

text \<open>
  The window-reset scenario from a clock reading of these years: the four calls at
  1700000000000 and 100, 200 and 1001 ms later are answered as the scenario expects.
\<close>

lemma window_reset_at_epoch_reading:
  "fst (admits env_limit2 empty_redis ''gpt-4'' ''u1'' False
          [(1700000000000, 1700000000000), (1700000000100, 1700000000100),
           (1700000000200, 1700000000200), (1700000001001, 1700000001001)])
   = [Inr \<lparr>allowed = True, remaining = Num 1, timeRemaining = None\<rparr>,
      Inr \<lparr>allowed = True, remaining = Num 0, timeRemaining = None\<rparr>,
      Inr \<lparr>allowed = False, remaining = Num 0, timeRemaining = Some (Num 800)\<rparr>,
      Inr \<lparr>allowed = True, remaining = Num 1, timeRemaining = None\<rparr>]"
  by (simp add: model_defs string_defs window_of_env_limit2 limit_of_env_limit2 example_defs)

text \<open>
  With the window variable not set the window is \<open>NaN\<close>: the first write sends an
  expiry of \<open>NaN\<close>, the store refuses it, and the call throws.
\<close>

lemma unset_window_refused:
  "getTimeWindow [(''RATELIMITER_ENABLED'', ''true'')] ''gpt-4'' = NaN
   \<and> fst (u_ratelimit [(''RATELIMITER_ENABLED'', ''true'')] 5 5 empty_redis ''gpt-4'' ''u1'' False)
       = Inl Store_command_refused"
  by (simp add: model_defs config_defs example_defs)

end
